theory Spec2Isabelle
  imports Complex_Main
begin

section \<open>Errors and array access\<close>

text \<open>
  The Python exceptions that the modelled code can raise.  Floating-point numbers are
  modelled as exact reals throughout.
\<close>

datatype error = AssertionError | UnboundLocalError | IndexError | ValueError | IOError

text \<open>
  Reading a numpy array at a non-negative index: out of range raises \<open>IndexError\<close>.
\<close>

definition getitem :: "'a list \<Rightarrow> nat \<Rightarrow> error + 'a" where
  "getitem xs i = (if i < length xs then Inr (xs ! i) else Inl IndexError)"

text \<open>Writing a numpy array at a non-negative index.\<close>

definition setitem :: "'a list \<Rightarrow> nat \<Rightarrow> 'a \<Rightarrow> error + 'a list" where
  "setitem xs i v = (if i < length xs then Inr (xs[i := v]) else Inl IndexError)"

text \<open>\<open>math.sqrt\<close>: a negative argument raises \<open>ValueError\<close>.\<close>

definition py_sqrt :: "real \<Rightarrow> error + real" where
  "py_sqrt x = (if x < 0 then Inl ValueError else Inr (sqrt x))"

text \<open>\<open>numpy.isclose\<close> with its default tolerances.\<close>

definition rtol :: real where
  "rtol = 1 / 100000"

definition atol :: real where
  "atol = 1 / 100000000"

definition isclose :: "real \<Rightarrow> real \<Rightarrow> bool" where
  "isclose a b = (\<bar>a - b\<bar> \<le> atol + rtol * \<bar>b\<bar>)"

text \<open>\<open>numpy.zeros\<close>, \<open>numpy.sum\<close> and \<open>numpy.cumsum\<close> on one-dimensional arrays.\<close>

definition zeros :: "nat \<Rightarrow> real list" where
  "zeros n = replicate n 0"

definition compute_total_energy :: "real list \<Rightarrow> real" where
  "compute_total_energy xs = sum_list xs"

fun cumsum_from :: "real \<Rightarrow> real list \<Rightarrow> real list" where
  "cumsum_from acc [] = []"
| "cumsum_from acc (x # xs) = (acc + x) # cumsum_from (acc + x) xs"

definition compute_retained_energy :: "real list \<Rightarrow> real list" where
  "compute_retained_energy xs = cumsum_from 0 xs"

section \<open>The POD engine\<close>

text \<open>
  The class is built by a factory whose arguments (\<open>backend\<close>, \<open>online_backend\<close>, the
  container types) are supplied by the caller.  Their operations are the fields of a
  record: \<open>'v\<close> is a snapshot or basis vector, \<open>'x\<close> the inner product matrix, \<open>'c\<close>
  the correlation matrix and \<open>'e\<close> an eigenvector of the correlation matrix.
\<close>

record 'e eigensolver =
  get_eigenvalue :: "nat \<Rightarrow> real \<times> real"
  get_eigenvector :: "nat \<Rightarrow> 'e \<times> 'e"

record ('v, 'x, 'c, 'e) backend =
  gram_X :: "'v list \<Rightarrow> 'x \<Rightarrow> 'c"
  gram :: "'v list \<Rightarrow> 'c"
  OnlineEigenSolver :: "'v list \<Rightarrow> 'c \<Rightarrow> 'e eigensolver"
  combine :: "'v list \<Rightarrow> 'e \<Rightarrow> 'v"
  form_X :: "'v \<Rightarrow> 'x \<Rightarrow> real"
  form :: "'v \<Rightarrow> real"
  divide_by :: "'v \<Rightarrow> real \<Rightarrow> 'v"

text \<open>
  \<^item> \<open>gram_X S X\<close> is \<open>transpose(S)*X*S\<close> and \<open>gram S\<close> is \<open>transpose(S)*S\<close>;
  \<^item> \<open>OnlineEigenSolver Z C\<close> is the eigensolver after \<open>set_parameters\<close> and \<open>solve\<close>;
  \<^item> \<open>combine S e\<close> is \<open>S*e\<close>;
  \<^item> \<open>form_X b X\<close> is \<open>transpose(b)*X*b\<close> and \<open>form b\<close> is \<open>transpose(b)*b\<close>;
  \<^item> \<open>divide_by b r\<close> is \<open>b\<close> after \<open>b /= r\<close>.
\<close>

record ('v, 'x) engine =
  X :: "'x option"
  snapshots_matrix :: "'v list"
  eigenvalues :: "real list"
  retained_energy :: "real list"

definition init :: "'x option \<Rightarrow> ('v, 'x) engine" where
  "init x = \<lparr>X = x, snapshots_matrix = [], eigenvalues = zeros 0, retained_energy = zeros 0\<rparr>"

definition clear :: "('v, 'x) engine \<Rightarrow> ('v, 'x) engine" where
  "clear self = self\<lparr>snapshots_matrix := [], eigenvalues := zeros 0\<rparr>"

text \<open>The base class leaves \<open>store_snapshot\<close> to its variants; the plain one appends.\<close>

definition store_snapshot :: "('v, 'x) engine \<Rightarrow> 'v \<Rightarrow> ('v, 'x) engine" where
  "store_snapshot self s = self\<lparr>snapshots_matrix := snapshots_matrix self @ [s]\<rparr>"

subsection \<open>The method \<open>apply\<close>\<close>

text \<open>
  The loop of lines 73 to 76: each eigenvalue is asserted to be numerically real and its
  real part is stored.
\<close>

fun fill_eigenvalues :: "'e eigensolver \<Rightarrow> nat list \<Rightarrow> real list \<Rightarrow> error + real list" where
  "fill_eigenvalues es [] evs = Inr evs"
| "fill_eigenvalues es (i # is) evs =
     (case get_eigenvalue es i of (eig_i_real, eig_i_complex) \<Rightarrow>
        if isclose eig_i_complex 0
        then (case setitem evs i eig_i_real of
                Inl e \<Rightarrow> Inl e
              | Inr evs' \<Rightarrow> fill_eigenvalues es is evs')
        else Inl AssertionError)"

text \<open>Lines 78 to 83.\<close>

definition normalize_energy :: "real list \<Rightarrow> real list" where
  "normalize_energy evs =
     (let total_energy = compute_total_energy (map abs evs);
          retained = compute_retained_energy (map abs evs)
      in if total_energy > 0 then map (\<lambda>r. r / total_energy) retained
         else map (\<lambda>r. r + 1) retained)"

text \<open>Lines 86 to 94: the candidate of index \<open>N\<close>, normalised unless its norm is zero.\<close>

definition candidate ::
  "('v, 'x, 'c, 'e) backend \<Rightarrow> 'e eigensolver \<Rightarrow> 'v list \<Rightarrow> nat \<Rightarrow> 'v" where
  "candidate bk es S N = combine bk S (fst (get_eigenvector es N))"

definition norm_of :: "('v, 'x, 'c, 'e) backend \<Rightarrow> 'x option \<Rightarrow> 'v \<Rightarrow> error + real" where
  "norm_of bk x b = (case x of Some xm \<Rightarrow> py_sqrt (form_X bk b xm) | None \<Rightarrow> py_sqrt (form bk b))"

definition normalized :: "('v, 'x, 'c, 'e) backend \<Rightarrow> 'x option \<Rightarrow> 'v \<Rightarrow> error + 'v" where
  "normalized bk x b =
     (case norm_of bk x b of
        Inl e \<Rightarrow> Inl e
      | Inr norm_b \<Rightarrow> Inr (if norm_b \<noteq> 0 then divide_by bk b norm_b else b))"

text \<open>
  The loop of lines 85 to 96 over the remaining indices of \<open>range(Nmax)\<close>.  The state is
  the basis \<open>Z\<close> and the loop variable \<open>N\<close>, which is unbound (\<open>None\<close>) until the body
  has run once.  \<open>enrich\<close> appends to the basis.
\<close>

fun enrich_loop ::
  "('v, 'x, 'c, 'e) backend \<Rightarrow> 'e eigensolver \<Rightarrow> 'x option \<Rightarrow> 'v list \<Rightarrow> real list \<Rightarrow> real \<Rightarrow>
   nat list \<Rightarrow> 'v list \<Rightarrow> nat option \<Rightarrow> error + ('v list \<times> nat option)" where
  "enrich_loop bk es x S re tol [] Z N = Inr (Z, N)"
| "enrich_loop bk es x S re tol (n # ns) Z N =
     (case normalized bk x (candidate bk es S n) of
        Inl e \<Rightarrow> Inl e
      | Inr b \<Rightarrow>
          (case getitem re n of
             Inl e \<Rightarrow> Inl e
           | Inr r \<Rightarrow>
               if r > 1 - tol then Inr (Z @ [b], Some n)
               else enrich_loop bk es x S re tol ns (Z @ [b]) (Some n)))"

text \<open>
  \<open>apply_pod\<close> is the method \<open>apply\<close>: it returns the triple and the engine with its two sequences updated, or the
  exception raised.  \<open>Nmax\<close> is a Python integer; \<open>range\<close> of a non-positive integer is
  empty.
\<close>

definition apply_pod ::
  "('v, 'x, 'c, 'e) backend \<Rightarrow> ('v, 'x) engine \<Rightarrow> int \<Rightarrow> real \<Rightarrow>
   error + ((real list \<times> 'v list \<times> nat) \<times> ('v, 'x) engine)" where
  "apply_pod bk self Nmax tol =
     (let S = snapshots_matrix self;
          correlation = (case X self of Some xm \<Rightarrow> gram_X bk S xm | None \<Rightarrow> gram bk S);
          Z = [];
          es = OnlineEigenSolver bk Z correlation;
          Neigs = length S;
          Nmax' = min Nmax (int Neigs)
      in case fill_eigenvalues es [0..<Neigs] (zeros Neigs) of
           Inl e \<Rightarrow> Inl e
         | Inr evs \<Rightarrow>
             (let re = normalize_energy evs
              in case enrich_loop bk es (X self) S re tol [0..<nat Nmax'] Z None of
                   Inl e \<Rightarrow> Inl e
                 | Inr (Z', None) \<Rightarrow> Inl UnboundLocalError
                 | Inr (Z', Some N) \<Rightarrow>
                     Inr ((take (N + 1) evs, Z', N + 1),
                          self\<lparr>eigenvalues := evs, retained_energy := re\<rparr>)))"

subsection \<open>Persisting the two sequences\<close>

text \<open>
  \<open>str\<close> of a non-negative Python integer is its decimal representation.  \<open>str\<close> of a
  floating-point number is a parameter \<open>str_float\<close> of the two methods.
\<close>

definition digit :: "nat \<Rightarrow> char" where
  "digit d = ''0123456789'' ! d"

fun str_nat :: "nat \<Rightarrow> string" where
  "str_nat n = (if n < 10 then [digit n] else str_nat (n div 10) @ [digit (n mod 10)])"

declare str_nat.simps [simp del]

text \<open>
  What one participant sees of the outside: the files, each as the list of the strings
  written to it, and the number of times the participant has entered the barrier.
  Opening a file for writing is assumed to succeed.
\<close>

record world =
  files :: "string \<rightharpoonup> string list"
  barriers :: nat

definition line :: "(real \<Rightarrow> string) \<Rightarrow> nat \<Rightarrow> real \<Rightarrow> string" where
  "line str_float i v = str_nat i @ '' '' @ str_float v @ [CHR 0x0A]"

text \<open>
  The loop of lines 111 and 112 (and 119 and 120): at an index out of range the
  exception leaves what was written so far in the file.
\<close>

fun write_lines ::
  "(real \<Rightarrow> string) \<Rightarrow> real list \<Rightarrow> nat list \<Rightarrow> string list \<Rightarrow> (error \<times> string list) + string list" where
  "write_lines str_float xs [] outfile = Inr outfile"
| "write_lines str_float xs (i # is) outfile =
     (case getitem xs i of
        Inl e \<Rightarrow> Inl (e, outfile)
      | Inr v \<Rightarrow> write_lines str_float xs is (outfile @ [line str_float i v]))"

text \<open>
  \<open>is_io\<close> is the value of \<open>is_io_process(self.mpi_comm)\<close> on the participant.  An
  exception leaves the method before the barrier.
\<close>

definition save_eigenvalues_file ::
  "(real \<Rightarrow> string) \<Rightarrow> bool \<Rightarrow> ('v, 'x) engine \<Rightarrow> world \<Rightarrow> string \<Rightarrow> string \<Rightarrow> (error \<times> world) + world" where
  "save_eigenvalues_file str_float is_io self w output_directory eigenvalues_file =
     (if is_io then
        (let N = length (snapshots_matrix self);
             path = output_directory @ ''/'' @ eigenvalues_file
         in case write_lines str_float (eigenvalues self) [0..<N] [] of
              Inl (e, outfile) \<Rightarrow> Inl (e, w\<lparr>files := (files w)(path \<mapsto> outfile)\<rparr>)
            | Inr outfile \<Rightarrow>
                Inr (w\<lparr>files := (files w)(path \<mapsto> outfile), barriers := barriers w + 1\<rparr>))
      else Inr (w\<lparr>barriers := barriers w + 1\<rparr>))"

definition save_retained_energy_file ::
  "(real \<Rightarrow> string) \<Rightarrow> bool \<Rightarrow> ('v, 'x) engine \<Rightarrow> world \<Rightarrow> string \<Rightarrow> string \<Rightarrow> (error \<times> world) + world" where
  "save_retained_energy_file str_float is_io self w output_directory retained_energy_file =
     (if is_io then
        (let N = length (snapshots_matrix self);
             path = output_directory @ ''/'' @ retained_energy_file
         in case write_lines str_float (retained_energy self) [0..<N] [] of
              Inl (e, outfile) \<Rightarrow> Inl (e, w\<lparr>files := (files w)(path \<mapsto> outfile)\<rparr>)
            | Inr outfile \<Rightarrow>
                Inr (w\<lparr>files := (files w)(path \<mapsto> outfile), barriers := barriers w + 1\<rparr>))
      else Inr (w\<lparr>barriers := barriers w + 1\<rparr>))"

section \<open>The affine expansion storage of the numpy backend\<close>

text \<open>
  The class extends a base class built by \<open>BasicAffineExpansionStorage\<close>, whose methods
  \<open>__setitem__\<close> and \<open>load\<close> act on the attribute \<open>_content\<close>, and it uses
  \<open>numpy.asmatrix\<close>.  The three are the fields of a record: \<open>'c\<close> is the content, \<open>'k\<close> a
  key, \<open>'i\<close> an item and \<open>'m\<close> a dense matrix.
\<close>

record ('c, 'k, 'i, 'm) storage_base =
  Base_setitem :: "'c \<Rightarrow> 'k \<Rightarrow> 'i \<Rightarrow> error + 'c"
  Base_load :: "'c \<Rightarrow> string \<Rightarrow> string \<Rightarrow> error + 'c"
  AsMatrix :: "'c \<Rightarrow> 'm"

record ('c, 'm) AffineExpansionStorage =
  content :: 'c
  content_as_matrix :: "'m option"

text \<open>The two constructors: from a size, and from another storage.\<close>

definition init_sized :: "'c \<Rightarrow> ('c, 'm) AffineExpansionStorage" where
  "init_sized c = \<lparr>content = c, content_as_matrix = None\<rparr>"

definition init_copy :: "('c, 'm) AffineExpansionStorage \<Rightarrow> ('c, 'm) AffineExpansionStorage" where
  "init_copy arg1 = \<lparr>content = content arg1, content_as_matrix = content_as_matrix arg1\<rparr>"

definition aes_setitem ::
  "('c, 'k, 'i, 'm) storage_base \<Rightarrow> ('c, 'm) AffineExpansionStorage \<Rightarrow> 'k \<Rightarrow> 'i \<Rightarrow>
   error + ('c, 'm) AffineExpansionStorage" where
  "aes_setitem B self key item =
     (case Base_setitem B (content self) key item of
        Inl e \<Rightarrow> Inl e
      | Inr c \<Rightarrow> Inr (self\<lparr>content := c, content_as_matrix := None\<rparr>))"

definition as_matrix ::
  "('c, 'k, 'i, 'm) storage_base \<Rightarrow> ('c, 'm) AffineExpansionStorage \<Rightarrow>
   'm \<times> ('c, 'm) AffineExpansionStorage" where
  "as_matrix B self =
     (case content_as_matrix self of
        None \<Rightarrow> (let m = AsMatrix B (content self) in (m, self\<lparr>content_as_matrix := Some m\<rparr>))
      | Some m \<Rightarrow> (m, self))"

definition aes_load ::
  "('c, 'k, 'i, 'm) storage_base \<Rightarrow> ('c, 'm) AffineExpansionStorage \<Rightarrow> string \<Rightarrow> string \<Rightarrow>
   error + ('c, 'm) AffineExpansionStorage" where
  "aes_load B self directory filename =
     (case Base_load B (content self) directory filename of
        Inl e \<Rightarrow> Inl e
      | Inr c \<Rightarrow> Inr (snd (as_matrix B (self\<lparr>content := c, content_as_matrix := None\<rparr>))))"

section \<open>Notions used to state the properties\<close>

text \<open>The correlation matrix and the solved eigenproblem that \<open>apply\<close> works with.\<close>

definition correlation_of :: "('v, 'x, 'c, 'e) backend \<Rightarrow> ('v, 'x) engine \<Rightarrow> 'c" where
  "correlation_of bk self =
     (case X self of
        Some xm \<Rightarrow> gram_X bk (snapshots_matrix self) xm
      | None \<Rightarrow> gram bk (snapshots_matrix self))"

definition solver_of :: "('v, 'x, 'c, 'e) backend \<Rightarrow> ('v, 'x) engine \<Rightarrow> 'e eigensolver" where
  "solver_of bk self = OnlineEigenSolver bk [] (correlation_of bk self)"

text \<open>The first \<open>n\<close> eigenvalues have an imaginary part that \<open>isclose\<close> accepts.\<close>

definition numerically_real :: "'e eigensolver \<Rightarrow> nat \<Rightarrow> bool" where
  "numerically_real es n = (\<forall>i<n. isclose (snd (get_eigenvalue es i)) 0)"

definition real_parts :: "'e eigensolver \<Rightarrow> nat \<Rightarrow> real list" where
  "real_parts es n = map (\<lambda>i. fst (get_eigenvalue es i)) [0..<n]"

text \<open>
  The quantity under the square root is non-negative for the first \<open>m\<close> candidates, as it
  is for a positive semidefinite inner product.
\<close>

definition square_of :: "('v, 'x, 'c, 'e) backend \<Rightarrow> 'x option \<Rightarrow> 'v \<Rightarrow> real" where
  "square_of bk x b = (case x of Some xm \<Rightarrow> form_X bk b xm | None \<Rightarrow> form bk b)"

definition norms_defined ::
  "('v, 'x, 'c, 'e) backend \<Rightarrow> ('v, 'x) engine \<Rightarrow> nat \<Rightarrow> bool" where
  "norms_defined bk self m =
     (\<forall>n<m. 0 \<le> square_of bk (X self) (candidate bk (solver_of bk self) (snapshots_matrix self) n))"

text \<open>
  The basis vector that the loop body makes of the candidate of index \<open>n\<close> when its norm
  is defined.
\<close>

definition made ::
  "('v, 'x, 'c, 'e) backend \<Rightarrow> 'e eigensolver \<Rightarrow> 'x option \<Rightarrow> 'v list \<Rightarrow> nat \<Rightarrow> 'v" where
  "made bk es x S n =
     (let b = candidate bk es S n; r = sqrt (square_of bk x b)
      in if r \<noteq> 0 then divide_by bk b r else b)"

definition basis_vector :: "('v, 'x, 'c, 'e) backend \<Rightarrow> ('v, 'x) engine \<Rightarrow> nat \<Rightarrow> 'v" where
  "basis_vector bk self n = made bk (solver_of bk self) (X self) (snapshots_matrix self) n"

text \<open>
  The number of modes that the truncation rule retains among the first \<open>m\<close>: one more
  than the first index whose retained energy exceeds \<open>1 - tol\<close>, or \<open>m\<close> if there is none.
\<close>

definition stop_index :: "real list \<Rightarrow> real \<Rightarrow> nat \<Rightarrow> nat" where
  "stop_index re tol m =
     (case find (\<lambda>k. re ! k > 1 - tol) [0..<m] of Some k \<Rightarrow> k + 1 | None \<Rightarrow> m)"

text \<open>
  The operations on a storage, a sequence of them performed in order, and the storage
  whose cached view, if there is one, is the dense assembly of its content.
\<close>

datatype ('k, 'i) operation = SetItem 'k 'i | AsMatrix_call | Load string string

fun perform ::
  "('c, 'k, 'i, 'm) storage_base \<Rightarrow> ('c, 'm) AffineExpansionStorage \<Rightarrow> ('k, 'i) operation \<Rightarrow>
   error + ('c, 'm) AffineExpansionStorage" where
  "perform B self (SetItem key item) = aes_setitem B self key item"
| "perform B self AsMatrix_call = Inr (snd (as_matrix B self))"
| "perform B self (Load directory filename) = aes_load B self directory filename"

fun perform_all ::
  "('c, 'k, 'i, 'm) storage_base \<Rightarrow> ('c, 'm) AffineExpansionStorage \<Rightarrow> ('k, 'i) operation list \<Rightarrow>
   error + ('c, 'm) AffineExpansionStorage" where
  "perform_all B self [] = Inr self"
| "perform_all B self (op # ops) =
     (case perform B self op of Inl e \<Rightarrow> Inl e | Inr self' \<Rightarrow> perform_all B self' ops)"

definition coherent :: "('c, 'k, 'i, 'm) storage_base \<Rightarrow> ('c, 'm) AffineExpansionStorage \<Rightarrow> bool" where
  "coherent B self =
     (case content_as_matrix self of None \<Rightarrow> True | Some m \<Rightarrow> m = AsMatrix B (content self))"

section \<open>A dense backend\<close>

text \<open>
  Modelled from the spec: the numeric backends are not part of the sources at hand.
  Vectors are lists of reals and a matrix is the list of its rows; the correlation
  matrix is \<open>C[i,j] = \<langle>snapshot_i, snapshot_j\<rangle>\<close>, a candidate is
  \<open>\<Sum>_i snapshot_i \<sqdot> eigenvector[i]\<close>.  The eigensolver stays a parameter.
\<close>

definition dot :: "real list \<Rightarrow> real list \<Rightarrow> real" where
  "dot a b = sum_list (map2 (*) a b)"

definition matvec :: "real list list \<Rightarrow> real list \<Rightarrow> real list" where
  "matvec A b = map (\<lambda>row. dot row b) A"

definition lincomb :: "real list list \<Rightarrow> real list \<Rightarrow> real list" where
  "lincomb S e =
     (case S of
        [] \<Rightarrow> []
      | s # _ \<Rightarrow> map (\<lambda>j. sum_list (map2 (\<lambda>si ei. si ! j * ei) S e)) [0..<length s])"

definition dense ::
  "(real list list \<Rightarrow> real list eigensolver) \<Rightarrow>
   (real list, real list list, real list list, real list) backend" where
  "dense solver =
     \<lparr>gram_X = (\<lambda>S A. map (\<lambda>si. map (\<lambda>sj. dot si (matvec A sj)) S) S),
      gram = (\<lambda>S. map (\<lambda>si. map (\<lambda>sj. dot si sj) S) S),
      OnlineEigenSolver = (\<lambda>Z C. solver C),
      combine = lincomb,
      form_X = (\<lambda>b A. dot b (matvec A b)),
      form = (\<lambda>b. dot b b),
      divide_by = (\<lambda>b r. map (\<lambda>c. c / r) b)\<rparr>"

text \<open>An eigensolver that answers from a table of eigenvalues and eigenvectors.\<close>

definition table_solver :: "((real \<times> real) \<times> real list) list \<Rightarrow> real list eigensolver" where
  "table_solver tbl =
     \<lparr>get_eigenvalue = (\<lambda>i. if i < length tbl then fst (tbl ! i) else (0, 0)),
      get_eigenvector = (\<lambda>i. if i < length tbl then (snd (tbl ! i), []) else ([], []))\<rparr>"

section \<open>A list-based storage base\<close>

text \<open>
  Modelled from the spec: the base class of the storage is not part of the sources at
  hand.  The content is a list of fixed length; a key outside \<open>[0, length)\<close> is an
  out-of-range failure; \<open>load\<close> restores every element from what a directory and file
  name hold, and fails where nothing is held; the dense view is the list of the rows.
\<close>

definition list_setitem :: "real list list \<Rightarrow> int \<Rightarrow> real list \<Rightarrow> error + real list list" where
  "list_setitem c key item =
     (if 0 \<le> key \<and> key < int (length c) then Inr (c[nat key := item]) else Inl IndexError)"

definition list_load ::
  "(string \<times> string \<rightharpoonup> real list list) \<Rightarrow> real list list \<Rightarrow> string \<Rightarrow> string \<Rightarrow>
   error + real list list" where
  "list_load disk c directory filename =
     (case disk (directory, filename) of None \<Rightarrow> Inl IOError | Some c' \<Rightarrow> Inr c')"

definition list_base ::
  "(string \<times> string \<rightharpoonup> real list list) \<Rightarrow>
   (real list list, int, real list, real list list) storage_base" where
  "list_base disk =
     \<lparr>Base_setitem = list_setitem, Base_load = list_load disk, AsMatrix = (\<lambda>c. c)\<rparr>"

section \<open>Concrete engines\<close>

text \<open>
  Two snapshots \<open>(1,0,0)\<close> and \<open>(0,1,0)\<close> under the Euclidean inner product: the
  correlation matrix is the identity, with eigenvalues \<open>1, 1\<close> and the unit vectors as
  eigenvectors.
\<close>

definition two_snapshots :: "(real list, real list list) engine" where
  "two_snapshots = store_snapshot (store_snapshot (init None) [1, 0, 0]) [0, 1, 0]"

definition identity_solver :: "real list list \<Rightarrow> real list eigensolver" where
  "identity_solver C = table_solver [((1, 0), [1, 0]), ((1, 0), [0, 1])]"

text \<open>The same engine after a run of \<open>apply\<close>.\<close>

definition two_snapshots_applied :: "(real list, real list list) engine" where
  "two_snapshots_applied = two_snapshots\<lparr>eigenvalues := [1, 1], retained_energy := [1 / 2, 1]\<rparr>"

text \<open>Two snapshots that are both the zero vector: the correlation matrix is zero.\<close>

definition zero_snapshots :: "(real list, real list list) engine" where
  "zero_snapshots = store_snapshot (store_snapshot (init None) [0, 0]) [0, 0]"

definition zero_solver :: "real list list \<Rightarrow> real list eigensolver" where
  "zero_solver C = table_solver [((0, 0), [1, 0]), ((0, 0), [0, 1])]"

text \<open>
  One snapshot \<open>(1,1)\<close> under the positive semidefinite form of the matrix
  \<open>[[1,-1],[-1,1]]\<close>, for which the snapshot has norm zero: the correlation matrix is
  the \<open>1\<times>1\<close> zero matrix, with eigenvalue \<open>0\<close> and eigenvector \<open>(1)\<close>.
\<close>

definition seminorm_engine :: "(real list, real list list) engine" where
  "seminorm_engine = store_snapshot (init (Some [[1, -1], [-1, 1]])) [1, 1]"

definition seminorm_solver :: "real list list \<Rightarrow> real list eigensolver" where
  "seminorm_solver C = table_solver [((0, 0), [1])]"

text \<open>An eigensolver that returns an eigenvalue with imaginary part \<open>1\<close>.\<close>

definition complex_solver :: "real list list \<Rightarrow> real list eigensolver" where
  "complex_solver C = table_solver [((1, 0), [1, 0]), ((1, 1), [0, 1])]"

section \<open>A concrete storage\<close>

text \<open>A storage of two rows, and a disk that holds one saved storage.\<close>

definition stored :: "(real list list, real list list) AffineExpansionStorage" where
  "stored = init_sized [[0, 0], [0, 0]]"

definition disk_one :: "string \<times> string \<rightharpoonup> real list list" where
  "disk_one = [(''dir'', ''file'') \<mapsto> [[5, 6], [7, 8]]]"

section \<open>A concrete world\<close>

text \<open>No file and no barrier entered yet.\<close>

definition empty_world :: world where
  "empty_world = \<lparr>files = Map.empty, barriers = 0\<rparr>"

text \<open>A rendering of the floating-point numbers that the concrete engines hold.\<close>

definition str_small :: "real \<Rightarrow> string" where
  "str_small v = (if v = 1 then ''1.0'' else if v = 1 / 2 then ''0.5'' else ''0.0'')"

text \<open>A third snapshot stored after the run of \<open>apply\<close> on two.\<close>

definition three_snapshots :: "(real list, real list list) engine" where
  "three_snapshots = store_snapshot two_snapshots_applied [0, 0, 1]"

section \<open>Auxiliary facts\<close>

subsection \<open>Cumulative sums and the retained energy\<close>

lemma length_cumsum_from: "length (cumsum_from a xs) = length xs"
  by (induction xs arbitrary: a) simp_all




lemma length_normalize_energy: "length (normalize_energy evs) = length evs"
  by (simp add: normalize_energy_def compute_retained_energy_def length_cumsum_from Let_def)




subsection \<open>The assertion loop\<close>

lemma fill_eigenvalues_Inr:
  "\<forall>i\<in>set is. i < length evs \<and> isclose (snd (get_eigenvalue es i)) 0 \<Longrightarrow>
   fill_eigenvalues es is evs =
     Inr (map (\<lambda>j. if j \<in> set is then fst (get_eigenvalue es j) else evs ! j) [0..<length evs])"
proof (induction "is" arbitrary: evs)
  case Nil
  then show ?case by (simp add: map_nth)
next
  case (Cons i "is")
  obtain re im where g: "get_eigenvalue es i = (re, im)" by (cases "get_eigenvalue es i")
  from Cons.prems g have i: "i < length evs" and c: "isclose im 0" by auto
  have "\<forall>k\<in>set is. k < length (evs[i := re]) \<and> isclose (snd (get_eigenvalue es k)) 0"
    using Cons.prems by simp
  from Cons.IH [OF this] g i c show ?case
    by (auto simp: setitem_def nth_list_update)
qed

lemma fill_eigenvalues_range:
  "numerically_real es n \<Longrightarrow> fill_eigenvalues es [0..<n] (zeros n) = Inr (real_parts es n)"
  using fill_eigenvalues_Inr [of "[0..<n]" "zeros n" es]
  by (simp add: numerically_real_def zeros_def real_parts_def)

lemma fill_eigenvalues_assert:
  "\<forall>i\<in>set is. i < length evs \<Longrightarrow>
   (\<exists>i\<in>set is. \<not> isclose (snd (get_eigenvalue es i)) 0) \<Longrightarrow>
   fill_eigenvalues es is evs = Inl AssertionError"
proof (induction "is" arbitrary: evs)
  case Nil
  then show ?case by simp
next
  case (Cons i "is")
  obtain re im where g: "get_eigenvalue es i = (re, im)" by (cases "get_eigenvalue es i")
  show ?case
  proof (cases "isclose im 0")
    case False
    with g show ?thesis by simp
  next
    case True
    with Cons.prems g have ex: "\<exists>k\<in>set is. \<not> isclose (snd (get_eigenvalue es k)) 0" by auto
    have "\<forall>k\<in>set is. k < length (evs[i := re])" using Cons.prems by simp
    from Cons.IH [OF this ex] Cons.prems g True show ?thesis
      by (simp add: setitem_def)
  qed
qed

lemma fill_eigenvalues_range_assert:
  "\<not> numerically_real es n \<Longrightarrow> fill_eigenvalues es [0..<n] (zeros n) = Inl AssertionError"
  by (rule fill_eigenvalues_assert) (auto simp: numerically_real_def zeros_def)

lemma length_real_parts: "length (real_parts es n) = n"
  by (simp add: real_parts_def)

subsection \<open>The enrichment loop\<close>

lemma normalized_defined:
  "0 \<le> square_of bk x b \<Longrightarrow>
   normalized bk x b =
     Inr (if sqrt (square_of bk x b) \<noteq> 0 then divide_by bk b (sqrt (square_of bk x b)) else b)"
  by (cases x) (simp_all add: normalized_def norm_of_def py_sqrt_def square_of_def)

lemma normalized_undefined:
  "square_of bk x b < 0 \<Longrightarrow> normalized bk x b = Inl ValueError"
  by (cases x) (simp_all add: normalized_def norm_of_def py_sqrt_def square_of_def)

lemma enrich_loop_exhaust:
  "\<forall>n\<in>set ns. n < length re \<and> \<not> re ! n > 1 - tol \<and> 0 \<le> square_of bk x (candidate bk es S n) \<Longrightarrow>
   enrich_loop bk es x S re tol ns Z N =
     Inr (Z @ map (made bk es x S) ns, if ns = [] then N else Some (last ns))"
proof (induction ns arbitrary: Z N)
  case Nil
  then show ?case by simp
next
  case (Cons n ns)
  from Cons.prems have n: "n < length re" "\<not> re ! n > 1 - tol"
    "0 \<le> square_of bk x (candidate bk es S n)" by simp_all
  have rest: "\<forall>k\<in>set ns. k < length re \<and> \<not> re ! k > 1 - tol \<and> 0 \<le> square_of bk x (candidate bk es S k)"
    using Cons.prems by simp
  show ?case
    using n Cons.IH [OF rest]
    by (simp add: normalized_defined getitem_def made_def Let_def)
qed

lemma enrich_loop_break:
  "\<forall>n\<in>set pre. n < length re \<and> \<not> re ! n > 1 - tol \<and> 0 \<le> square_of bk x (candidate bk es S n) \<Longrightarrow>
   k < length re \<Longrightarrow> re ! k > 1 - tol \<Longrightarrow> 0 \<le> square_of bk x (candidate bk es S k) \<Longrightarrow>
   enrich_loop bk es x S re tol (pre @ k # post) Z N =
     Inr (Z @ map (made bk es x S) (pre @ [k]), Some k)"
proof (induction pre arbitrary: Z N)
  case Nil
  then show ?case
    by (simp add: normalized_defined getitem_def made_def Let_def)
next
  case (Cons n pre)
  from Cons.prems have n: "n < length re" "\<not> re ! n > 1 - tol"
    "0 \<le> square_of bk x (candidate bk es S n)" by simp_all
  have rest: "\<forall>j\<in>set pre. j < length re \<and> \<not> re ! j > 1 - tol \<and> 0 \<le> square_of bk x (candidate bk es S j)"
    using Cons.prems by simp
  show ?case
    using n Cons.IH [OF rest Cons.prems(2) Cons.prems(3) Cons.prems(4)]
    by (simp add: normalized_defined getitem_def made_def Let_def)
qed

lemma stop_index_le: "stop_index re tol m \<le> m"
  by (auto simp: stop_index_def find_Some_iff split: option.splits)

lemma stop_index_first:
  "k < m \<Longrightarrow> re ! k > 1 - tol \<Longrightarrow> \<forall>j<k. \<not> re ! j > 1 - tol \<Longrightarrow> stop_index re tol m = k + 1"
proof -
  assume k: "k < m" and c: "re ! k > 1 - tol" and f: "\<forall>j<k. \<not> re ! j > 1 - tol"
  have "find (\<lambda>k. re ! k > 1 - tol) [0..<m] = Some k"
    unfolding find_Some_iff using k c f by (intro exI [of _ k]) simp
  then show ?thesis by (simp add: stop_index_def)
qed

lemma stop_index_none:
  "\<forall>k<m. \<not> re ! k > 1 - tol \<Longrightarrow> stop_index re tol m = m"
proof -
  assume "\<forall>k<m. \<not> re ! k > 1 - tol"
  then have "find (\<lambda>k. re ! k > 1 - tol) [0..<m] = None" by (simp add: find_None_iff)
  then show ?thesis by (simp add: stop_index_def)
qed

lemma stop_index_pos: "0 < m \<Longrightarrow> 0 < stop_index re tol m"
  by (simp add: stop_index_def split: option.splits)

lemma enrich_loop_range:
  assumes m: "0 < m" "m \<le> length re"
    and d: "\<forall>n<stop_index re tol m. 0 \<le> square_of bk x (candidate bk es S n)"
  shows "enrich_loop bk es x S re tol [0..<m] [] None =
           Inr (map (made bk es x S) [0..<stop_index re tol m], Some (stop_index re tol m - 1))"
proof (cases "find (\<lambda>k. re ! k > 1 - tol) [0..<m]")
  case None
  then have no: "\<forall>k<m. \<not> re ! k > 1 - tol" by (simp add: find_None_iff)
  then have s: "stop_index re tol m = m" by (rule stop_index_none)
  have "\<forall>n\<in>set [0..<m]. n < length re \<and> \<not> re ! n > 1 - tol \<and> 0 \<le> square_of bk x (candidate bk es S n)"
    using no m d s by simp
  from enrich_loop_exhaust [OF this, of "[]" None] m s show ?thesis
    by (simp add: last_upt)
next
  case (Some k)
  then have k: "k < m" "re ! k > 1 - tol" "\<forall>j<k. \<not> re ! j > 1 - tol"
    by (auto simp: find_Some_iff)
  then have s: "stop_index re tol m = k + 1" by (simp add: stop_index_first)
  have split: "[0..<m] = [0..<k] @ k # [Suc k..<m]"
    using k(1) by (metis less_imp_le_nat upt_add_eq_append upt_conv_Cons le0 le_add_diff_inverse)
  have pre: "\<forall>n\<in>set [0..<k]. n < length re \<and> \<not> re ! n > 1 - tol \<and> 0 \<le> square_of bk x (candidate bk es S n)"
    using k m d s by simp
  have "enrich_loop bk es x S re tol ([0..<k] @ k # [Suc k..<m]) [] None =
          Inr ([] @ map (made bk es x S) ([0..<k] @ [k]), Some k)"
    using k m d s by (intro enrich_loop_break [OF pre]) simp_all
  with split s show ?thesis by simp
qed

subsection \<open>The three outcomes of \<open>apply\<close>\<close>

lemma apply_pod_assert:
  "\<not> numerically_real (solver_of bk self) (length (snapshots_matrix self)) \<Longrightarrow>
   apply_pod bk self Nmax tol = Inl AssertionError"
  using fill_eigenvalues_range_assert [of "solver_of bk self" "length (snapshots_matrix self)"]
  by (simp add: apply_pod_def solver_of_def correlation_of_def Let_def)

lemma apply_pod_unbound:
  "numerically_real (solver_of bk self) (length (snapshots_matrix self)) \<Longrightarrow>
   min Nmax (int (length (snapshots_matrix self))) \<le> 0 \<Longrightarrow>
   apply_pod bk self Nmax tol = Inl UnboundLocalError"
  using fill_eigenvalues_range [of "solver_of bk self" "length (snapshots_matrix self)"]
  by (simp add: apply_pod_def solver_of_def correlation_of_def Let_def)

lemma apply_pod_returns:
  assumes r: "numerically_real (solver_of bk self) (length (snapshots_matrix self))"
    and m: "0 < min Nmax (int (length (snapshots_matrix self)))"
    and d: "norms_defined bk self
              (stop_index (normalize_energy (real_parts (solver_of bk self) (length (snapshots_matrix self))))
                 tol (nat (min Nmax (int (length (snapshots_matrix self))))))"
  shows "apply_pod bk self Nmax tol =
     Inr ((take (stop_index (normalize_energy (real_parts (solver_of bk self) (length (snapshots_matrix self))))
                   tol (nat (min Nmax (int (length (snapshots_matrix self))))))
             (real_parts (solver_of bk self) (length (snapshots_matrix self))),
           map (basis_vector bk self)
             [0..<stop_index (normalize_energy (real_parts (solver_of bk self) (length (snapshots_matrix self))))
                   tol (nat (min Nmax (int (length (snapshots_matrix self)))))],
           stop_index (normalize_energy (real_parts (solver_of bk self) (length (snapshots_matrix self))))
                   tol (nat (min Nmax (int (length (snapshots_matrix self)))))),
          self\<lparr>eigenvalues := real_parts (solver_of bk self) (length (snapshots_matrix self)),
               retained_energy := normalize_energy (real_parts (solver_of bk self) (length (snapshots_matrix self)))\<rparr>)"
proof -
  let ?S = "snapshots_matrix self"
  let ?es = "solver_of bk self"
  let ?evs = "real_parts ?es (length ?S)"
  let ?re = "normalize_energy ?evs"
  let ?m = "nat (min Nmax (int (length ?S)))"
  let ?n = "stop_index ?re tol ?m"
  have m0: "0 < ?m" using m by simp
  have ml: "?m \<le> length ?re" by (simp add: length_normalize_energy length_real_parts)
  have dd: "\<forall>n<?n. 0 \<le> square_of bk (X self) (candidate bk ?es ?S n)"
    using d by (simp add: norms_defined_def)
  have loop: "enrich_loop bk ?es (X self) ?S ?re tol [0..<?m] [] None =
                Inr (map (made bk ?es (X self) ?S) [0..<?n], Some (?n - 1))"
    by (rule enrich_loop_range [OF m0 ml dd])
  have pos: "0 < ?n" using m0 by (rule stop_index_pos)
  have bv: "made bk ?es (X self) ?S = basis_vector bk self"
    by (rule ext) (simp add: basis_vector_def)
  have fill: "fill_eigenvalues ?es [0..<length ?S] (zeros (length ?S)) = Inr ?evs"
    using r by (rule fill_eigenvalues_range)
  have unf: "apply_pod bk self Nmax tol =
      (case fill_eigenvalues ?es [0..<length ?S] (zeros (length ?S)) of
           Inl e \<Rightarrow> Inl e
         | Inr evs \<Rightarrow>
             (case enrich_loop bk ?es (X self) ?S (normalize_energy evs) tol [0..<?m] [] None of
                   Inl e \<Rightarrow> Inl e
                 | Inr (Z', None) \<Rightarrow> Inl UnboundLocalError
                 | Inr (Z', Some N) \<Rightarrow>
                     Inr ((take (N + 1) evs, Z', N + 1),
                          self\<lparr>eigenvalues := evs, retained_energy := normalize_energy evs\<rparr>)))"
    unfolding apply_pod_def solver_of_def correlation_of_def Let_def ..
  show ?thesis
    unfolding unf fill using loop pos bv by simp
qed

lemmas engine_simps =
  two_snapshots_def two_snapshots_applied_def zero_snapshots_def seminorm_engine_def
  store_snapshot_def init_def zeros_def

lemmas solver_simps =
  solver_of_def correlation_of_def dense_def table_solver_def
  identity_solver_def zero_solver_def seminorm_solver_def complex_solver_def

lemmas isclose_simps = isclose_def atol_def rtol_def

lemmas save_simps = empty_world_def str_small_def three_snapshots_def str_nat.simps digit_def

lemmas storage_simps =
  stored_def disk_one_def init_sized_def list_base_def list_setitem_def list_load_def
  aes_setitem_def aes_load_def as_matrix_def coherent_def Let_def

subsection \<open>Errors of \<open>apply\<close> and facts on the concrete engines\<close>

lemma normalized_error: "normalized bk x b = Inl e \<Longrightarrow> e = ValueError"
  by (cases x) (auto simp: normalized_def norm_of_def py_sqrt_def split: if_splits sum.splits)

lemma enrich_loop_error:
  "enrich_loop bk es x S re tol ns Z N = Inl e \<Longrightarrow> e = ValueError \<or> e = IndexError"
proof (induction ns arbitrary: Z N)
  case Nil
  then show ?case by simp
next
  case (Cons n ns)
  show ?case
  proof (cases "normalized bk x (candidate bk es S n)")
    case (Inl e')
    with Cons.prems normalized_error [OF Inl] show ?thesis by simp
  next
    case (Inr b)
    show ?thesis
    proof (cases "n < length re")
      case False
      with Cons.prems Inr show ?thesis by (simp add: getitem_def)
    next
      case True
      with Cons.prems Inr Cons.IH show ?thesis
        by (simp add: getitem_def split: if_splits)
    qed
  qed
qed

lemma apply_pod_assert_only:
  assumes r: "numerically_real (solver_of bk self) (length (snapshots_matrix self))"
  shows "apply_pod bk self Nmax tol \<noteq> Inl AssertionError"
proof
  let ?S = "snapshots_matrix self"
  let ?es = "solver_of bk self"
  let ?evs = "real_parts ?es (length ?S)"
  let ?m = "nat (min Nmax (int (length ?S)))"
  assume a: "apply_pod bk self Nmax tol = Inl AssertionError"
  have fill: "fill_eigenvalues ?es [0..<length ?S] (zeros (length ?S)) = Inr ?evs"
    using r by (rule fill_eigenvalues_range)
  have unf: "apply_pod bk self Nmax tol =
      (case fill_eigenvalues ?es [0..<length ?S] (zeros (length ?S)) of
           Inl e \<Rightarrow> Inl e
         | Inr evs \<Rightarrow>
             (case enrich_loop bk ?es (X self) ?S (normalize_energy evs) tol [0..<?m] [] None of
                   Inl e \<Rightarrow> Inl e
                 | Inr (Z', None) \<Rightarrow> Inl UnboundLocalError
                 | Inr (Z', Some N) \<Rightarrow>
                     Inr ((take (N + 1) evs, Z', N + 1),
                          self\<lparr>eigenvalues := evs, retained_energy := normalize_energy evs\<rparr>)))"
    unfolding apply_pod_def solver_of_def correlation_of_def Let_def ..
  show False
  proof (cases "enrich_loop bk ?es (X self) ?S (normalize_energy ?evs) tol [0..<?m] [] None")
    case (Inl e)
    from enrich_loop_error [OF Inl] a Inl show False
      unfolding unf fill by auto
  next
    case (Inr p)
    with a show False unfolding unf fill
      by (cases p) (auto split: option.splits)
  qed
qed

lemma dot_self_nonneg: "0 \<le> dot b b"
  unfolding dot_def by (induction b) simp_all

lemma dense_norms_defined: "X self = None \<Longrightarrow> norms_defined (dense solver) self m"
  by (simp add: norms_defined_def square_of_def dense_def dot_self_nonneg)

lemma two_snapshots_X: "X two_snapshots = None"
  by (simp add: engine_simps)


lemma identity_solver_real:
  "numerically_real (solver_of (dense identity_solver) two_snapshots)
     (length (snapshots_matrix two_snapshots))"
  by (simp add: numerically_real_def engine_simps solver_simps isclose_simps less_Suc_eq)


lemma complex_solver_not_real:
  "\<not> numerically_real (solver_of (dense complex_solver) two_snapshots)
     (length (snapshots_matrix two_snapshots))"
proof -
  have "\<not> isclose (snd (get_eigenvalue (solver_of (dense complex_solver) two_snapshots) 1)) 0"
    by (simp add: solver_simps isclose_simps engine_simps)
  moreover have "(1::nat) < length (snapshots_matrix two_snapshots)"
    by (simp add: engine_simps)
  ultimately show ?thesis unfolding numerically_real_def by blast
qed

subsection \<open>The guard on the normalisation\<close>










subsection \<open>The cached view of the storage\<close>

lemma setitem_invalidates:
  "aes_setitem B self key item = Inr self' \<Longrightarrow> content_as_matrix self' = None"
  by (auto simp: aes_setitem_def split: sum.splits)

lemma as_matrix_empty:
  "content_as_matrix self = None \<Longrightarrow>
   as_matrix B self =
     (AsMatrix B (content self), self\<lparr>content_as_matrix := Some (AsMatrix B (content self))\<rparr>)"
  by (simp add: as_matrix_def Let_def)

lemma as_matrix_cached:
  "content_as_matrix self = Some m \<Longrightarrow> as_matrix B self = (m, self)"
  by (simp add: as_matrix_def Let_def)

lemma as_matrix_twice: "as_matrix B (snd (as_matrix B self)) = as_matrix B self"
  by (cases "content_as_matrix self") (simp_all add: as_matrix_def Let_def)

lemma load_recomputes:
  "aes_load B self directory filename = Inr self' \<Longrightarrow>
   Base_load B (content self) directory filename = Inr (content self') \<and>
   content_as_matrix self' = Some (AsMatrix B (content self'))"
  by (auto simp: aes_load_def as_matrix_def Let_def split: sum.splits)

lemma coherent_as_matrix:
  "coherent B self \<Longrightarrow> fst (as_matrix B self) = AsMatrix B (content self)"
  by (cases "content_as_matrix self") (simp_all add: coherent_def as_matrix_def Let_def)

lemma perform_coherent:
  "coherent B self \<Longrightarrow> perform B self op = Inr self' \<Longrightarrow> coherent B self'"
proof (cases op)
  case (SetItem key item)
  assume "perform B self op = Inr self'"
  with SetItem have "content_as_matrix self' = None" by (simp add: setitem_invalidates)
  then show ?thesis by (simp add: coherent_def)
next
  case AsMatrix_call
  assume "coherent B self" "perform B self op = Inr self'"
  with AsMatrix_call show ?thesis
    by (cases "content_as_matrix self") (auto simp: coherent_def as_matrix_def Let_def)
next
  case (Load directory filename)
  assume "perform B self op = Inr self'"
  with Load load_recomputes [of B self directory filename self'] show ?thesis
    by (simp add: coherent_def)
qed

lemma perform_all_coherent:
  "coherent B self \<Longrightarrow> perform_all B self ops = Inr self' \<Longrightarrow> coherent B self'"
proof (induction ops arbitrary: self)
  case Nil
  then show ?case by simp
next
  case (Cons op ops)
  from Cons.prems(2) obtain s where p: "perform B self op = Inr s"
    and q: "perform_all B s ops = Inr self'"
    by (auto split: sum.splits)
  from Cons.prems(1) p have "coherent B s" by (rule perform_coherent)
  then show ?case using q by (rule Cons.IH)
qed

subsection \<open>The loop that writes the lines\<close>

lemma write_lines_all:
  "\<forall>i\<in>set is. i < length xs \<Longrightarrow>
   write_lines str_float xs is outfile =
     Inr (outfile @ map (\<lambda>i. line str_float i (xs ! i)) is)"
  by (induction "is" arbitrary: outfile) (simp_all add: getitem_def)

lemma write_lines_stops:
  "\<forall>i\<in>set is. i < length xs \<Longrightarrow> \<not> j < length xs \<Longrightarrow>
   write_lines str_float xs (is @ j # js) outfile =
     Inl (IndexError, outfile @ map (\<lambda>i. line str_float i (xs ! i)) is)"
  by (induction "is" arbitrary: outfile) (simp_all add: getitem_def)

lemma write_lines_range:
  assumes "N \<le> length xs"
  shows "write_lines str_float xs [0..<N] [] = Inr (map (\<lambda>i. line str_float i (xs ! i)) [0..<N])"
  using assms write_lines_all [of "[0..<N]" xs str_float "[]"] by simp

lemma write_lines_short:
  assumes "length xs < N"
  shows "write_lines str_float xs [0..<N] [] =
           Inl (IndexError, map (\<lambda>i. line str_float i (xs ! i)) [0..<length xs])"
proof -
  from assms have "[0..<N] = [0..<length xs] @ length xs # [Suc (length xs)..<N]"
    by (metis less_imp_le_nat upt_add_eq_append upt_conv_Cons zero_le le_add_diff_inverse)
  then show ?thesis
    using write_lines_stops [of "[0..<length xs]" xs "length xs" str_float "[Suc (length xs)..<N]" "[]"]
    by simp
qed

section \<open>The properties\<close>

subsection \<open>\<open>clear\<close>\<close>

lemma clear_fields:
  "snapshots_matrix (clear self) = [] \<and> eigenvalues (clear self) = [] \<and>
   retained_energy (clear self) = retained_energy self \<and> X (clear self) = X self"
  by (simp add: clear_def zeros_def)

text \<open>
  C3.  After \<open>clear()\<close> the snapshot container and the eigenvalue sequence are empty, and
  the retained-energy sequence is said to be reset to empty as well.  The method does
  not touch it: on the engine that has run \<open>apply\<close> on two snapshots, \<open>clear\<close> leaves
  the retained energy \<open>[1/2, 1]\<close> in place.
\<close>

theorem clear_keeps_retained_energy:
  "clear two_snapshots_applied =
     \<lparr>X = None, snapshots_matrix = [], eigenvalues = [], retained_energy = [1 / 2, 1]\<rparr>"
  by (simp add: clear_def engine_simps)

subsection \<open>\<open>apply\<close> with no mode to compute\<close>

text \<open>
  C9.  When \<open>min(Nmax, N)\<close> is zero or negative, because \<open>Nmax \<le> 0\<close> or because no
  snapshot is stored, the body of the enrichment loop never runs and \<open>apply\<close> raises
  the unbound-local-variable error at the increment after the loop; it returns no
  triple.  The eigenvalues are those of a Hermitian problem, so that the assertion
  before the loop passes.
\<close>

theorem apply_without_modes:
  assumes "min Nmax (int (length (snapshots_matrix self))) \<le> 0"
    and "numerically_real (solver_of bk self) (length (snapshots_matrix self))"
  shows "enrich_loop bk (solver_of bk self) (X self) (snapshots_matrix self) re tol
           [0..<nat (min Nmax (int (length (snapshots_matrix self))))] [] None = Inr ([], None)
         \<and> apply_pod bk self Nmax tol = Inl UnboundLocalError"
  using assms apply_pod_unbound [of bk self Nmax tol] by simp

theorem apply_without_modes_witness:
  "min 5 (int (length (snapshots_matrix (init None :: (real list, real list list) engine)))) \<le> 0
   \<and> numerically_real (solver_of (dense identity_solver) (init None))
        (length (snapshots_matrix (init None :: (real list, real list list) engine)))
   \<and> apply_pod (dense identity_solver) (init None) 5 (1 / 100) = Inl UnboundLocalError
   \<and> min 0 (int (length (snapshots_matrix two_snapshots))) \<le> 0
   \<and> numerically_real (solver_of (dense identity_solver) two_snapshots)
        (length (snapshots_matrix two_snapshots))
   \<and> apply_pod (dense identity_solver) two_snapshots 0 (1 / 100) = Inl UnboundLocalError"
proof -
  have a: "min 5 (int (length (snapshots_matrix (init None :: (real list, real list list) engine)))) \<le> 0"
    by (simp add: init_def)
  have b: "numerically_real (solver_of (dense identity_solver) (init None))
        (length (snapshots_matrix (init None :: (real list, real list list) engine)))"
    by (simp add: numerically_real_def init_def)
  have c: "min 0 (int (length (snapshots_matrix two_snapshots))) \<le> 0"
    by simp
  have d: "numerically_real (solver_of (dense identity_solver) two_snapshots)
        (length (snapshots_matrix two_snapshots))"
    by (simp add: numerically_real_def engine_simps solver_simps isclose_simps less_Suc_eq)
  have e: "apply_pod (dense identity_solver) (init None) 5 (1 / 100) = Inl UnboundLocalError"
    using apply_without_modes [OF a b, of "[]" "1 / 100"] by (rule conjunct2)
  have f: "apply_pod (dense identity_solver) two_snapshots 0 (1 / 100) = Inl UnboundLocalError"
    using apply_without_modes [OF c d, of "[]" "1 / 100"] by (rule conjunct2)
  from a b c d e f show ?thesis by (intro conjI)
qed

subsection \<open>The number of retained modes\<close>



subsection \<open>Zero total energy\<close>



subsection \<open>Zero tolerance\<close>



subsection \<open>The assertion on the eigenvalues\<close>

text \<open>
  C5.  \<open>apply\<close> raises the assertion failure if and only if some eigenvalue among the
  \<open>N\<close> returned by the eigensolver has an imaginary part that is not close to zero.
  When all of them are numerically real, the loop filling the eigenvalues passes the
  assertion \<open>N\<close> times and stores the real parts, and \<open>apply\<close> returns a result (for at
  least one snapshot, \<open>Nmax \<ge> 1\<close> and candidates whose squared norm is non-negative).
\<close>

theorem assertion_iff:
  "(apply_pod bk self Nmax tol = Inl AssertionError \<longleftrightarrow>
      \<not> numerically_real (solver_of bk self) (length (snapshots_matrix self))) \<and>
   (numerically_real (solver_of bk self) (length (snapshots_matrix self)) \<longrightarrow>
      fill_eigenvalues (solver_of bk self) [0..<length (snapshots_matrix self)]
          (zeros (length (snapshots_matrix self)))
        = Inr (real_parts (solver_of bk self) (length (snapshots_matrix self)))) \<and>
   (numerically_real (solver_of bk self) (length (snapshots_matrix self)) \<and>
    snapshots_matrix self \<noteq> [] \<and> 1 \<le> Nmax \<and>
    norms_defined bk self (nat (min Nmax (int (length (snapshots_matrix self))))) \<longrightarrow>
      (\<exists>res. apply_pod bk self Nmax tol = Inr res))"
proof (intro conjI impI)
  show "apply_pod bk self Nmax tol = Inl AssertionError \<longleftrightarrow>
      \<not> numerically_real (solver_of bk self) (length (snapshots_matrix self))"
    using apply_pod_assert [of bk self Nmax tol] apply_pod_assert_only [of bk self Nmax tol]
    by blast
next
  assume "numerically_real (solver_of bk self) (length (snapshots_matrix self))"
  then show "fill_eigenvalues (solver_of bk self) [0..<length (snapshots_matrix self)]
          (zeros (length (snapshots_matrix self)))
        = Inr (real_parts (solver_of bk self) (length (snapshots_matrix self)))"
    by (rule fill_eigenvalues_range)
next
  let ?N = "length (snapshots_matrix self)"
  let ?re = "normalize_energy (real_parts (solver_of bk self) ?N)"
  let ?m = "nat (min Nmax (int ?N))"
  assume a: "numerically_real (solver_of bk self) ?N \<and> snapshots_matrix self \<noteq> [] \<and> 1 \<le> Nmax \<and>
    norms_defined bk self ?m"
  then have r: "numerically_real (solver_of bk self) ?N" and d: "norms_defined bk self ?m"
    and m: "0 < min Nmax (int ?N)" by auto
  have "stop_index ?re tol ?m \<le> ?m" by (rule stop_index_le)
  with d have d': "norms_defined bk self (stop_index ?re tol ?m)"
    by (simp add: norms_defined_def)
  from apply_pod_returns [OF r m d']
  show "\<exists>res. apply_pod bk self Nmax tol = Inr res" by blast
qed

theorem assertion_iff_witness:
  "\<not> numerically_real (solver_of (dense complex_solver) two_snapshots)
       (length (snapshots_matrix two_snapshots)) \<and>
   apply_pod (dense complex_solver) two_snapshots 2 (1 / 100) = Inl AssertionError \<and>
   numerically_real (solver_of (dense identity_solver) two_snapshots)
       (length (snapshots_matrix two_snapshots)) \<and>
   snapshots_matrix two_snapshots \<noteq> [] \<and> (1::int) \<le> 2 \<and>
   norms_defined (dense identity_solver) two_snapshots
       (nat (min 2 (int (length (snapshots_matrix two_snapshots))))) \<and>
   apply_pod (dense identity_solver) two_snapshots 2 (1 / 100) \<noteq> Inl AssertionError \<and>
   fill_eigenvalues (solver_of (dense identity_solver) two_snapshots)
       [0..<length (snapshots_matrix two_snapshots)]
       (zeros (length (snapshots_matrix two_snapshots)))
     = Inr (real_parts (solver_of (dense identity_solver) two_snapshots)
              (length (snapshots_matrix two_snapshots))) \<and>
   (\<exists>res. apply_pod (dense identity_solver) two_snapshots 2 (1 / 100) = Inr res)"
proof -
  have a: "snapshots_matrix two_snapshots \<noteq> []" by (simp add: engine_simps)
  have b: "(1::int) \<le> 2" by simp
  have d: "norms_defined (dense identity_solver) two_snapshots
     (nat (min 2 (int (length (snapshots_matrix two_snapshots)))))"
    by (rule dense_norms_defined [OF two_snapshots_X])
  note t1 = assertion_iff [of "dense complex_solver" two_snapshots 2 "1 / 100"]
  note t2 = assertion_iff [of "dense identity_solver" two_snapshots 2 "1 / 100"]
  from t1 complex_solver_not_real
  have e: "apply_pod (dense complex_solver) two_snapshots 2 (1 / 100) = Inl AssertionError"
    by blast
  from t2 identity_solver_real
  have f: "apply_pod (dense identity_solver) two_snapshots 2 (1 / 100) \<noteq> Inl AssertionError"
    by blast
  from t2 identity_solver_real
  have g: "fill_eigenvalues (solver_of (dense identity_solver) two_snapshots)
       [0..<length (snapshots_matrix two_snapshots)]
       (zeros (length (snapshots_matrix two_snapshots)))
     = Inr (real_parts (solver_of (dense identity_solver) two_snapshots)
              (length (snapshots_matrix two_snapshots)))"
    by blast
  from t2 identity_solver_real a b d
  have h: "\<exists>res. apply_pod (dense identity_solver) two_snapshots 2 (1 / 100) = Inr res"
    by blast
  from complex_solver_not_real e identity_solver_real a b d f g h
  show ?thesis by (intro conjI)
qed

subsection \<open>Candidates of norm zero\<close>




subsection \<open>The cache of the affine expansion storage\<close>

text \<open>
  C7.  Every \<open>__setitem__\<close> that returns leaves the cached view empty.  \<open>as_matrix\<close>
  assembles the dense view of the current content and caches it exactly when the cache
  is empty, and returns the cached view otherwise, so that a second call in a row
  returns the same view and changes nothing.  Every \<open>load\<close> that returns has replaced
  the content by what the base class loaded and holds the dense view of that content
  in the cache.  Along every sequence of these operations a cached view, when there is
  one, is the dense assembly of the current content, which is therefore what
  \<open>as_matrix\<close> returns.
\<close>

theorem cache_protocol:
  "(aes_setitem B self key item = Inr after_set \<longrightarrow> content_as_matrix after_set = None) \<and>
   (content_as_matrix self = None \<longrightarrow>
      as_matrix B self =
        (AsMatrix B (content self), self\<lparr>content_as_matrix := Some (AsMatrix B (content self))\<rparr>)) \<and>
   (\<forall>m. content_as_matrix self = Some m \<longrightarrow> as_matrix B self = (m, self)) \<and>
   as_matrix B (snd (as_matrix B self)) = as_matrix B self \<and>
   (aes_load B self directory filename = Inr after_load \<longrightarrow>
      Base_load B (content self) directory filename = Inr (content after_load) \<and>
      content_as_matrix after_load = Some (AsMatrix B (content after_load))) \<and>
   (coherent B self \<and> perform_all B self ops = Inr after_ops \<longrightarrow>
      coherent B after_ops \<and> fst (as_matrix B after_ops) = AsMatrix B (content after_ops))"
proof (intro conjI impI allI)
  assume "aes_setitem B self key item = Inr after_set"
  then show "content_as_matrix after_set = None" by (rule setitem_invalidates)
next
  assume "content_as_matrix self = None"
  then show "as_matrix B self =
        (AsMatrix B (content self), self\<lparr>content_as_matrix := Some (AsMatrix B (content self))\<rparr>)"
    by (rule as_matrix_empty)
next
  fix m assume "content_as_matrix self = Some m"
  then show "as_matrix B self = (m, self)" by (rule as_matrix_cached)
next
  show "as_matrix B (snd (as_matrix B self)) = as_matrix B self" by (rule as_matrix_twice)
next
  assume a: "aes_load B self directory filename = Inr after_load"
  from load_recomputes [OF a]
  show "Base_load B (content self) directory filename = Inr (content after_load)" by (rule conjunct1)
  from load_recomputes [OF a]
  show "content_as_matrix after_load = Some (AsMatrix B (content after_load))" by (rule conjunct2)
next
  assume a: "coherent B self \<and> perform_all B self ops = Inr after_ops"
  then have c: "coherent B self" and p: "perform_all B self ops = Inr after_ops" by simp_all
  from c p show c3: "coherent B after_ops" by (rule perform_all_coherent)
  then show "fst (as_matrix B after_ops) = AsMatrix B (content after_ops)" by (rule coherent_as_matrix)
qed

theorem cache_protocol_witness:
  "aes_setitem (list_base disk_one) stored 0 [1, 2] =
     Inr \<lparr>content = [[1, 2], [0, 0]], content_as_matrix = None\<rparr> \<and>
   content_as_matrix stored = None \<and>
   as_matrix (list_base disk_one) stored =
     ([[0, 0], [0, 0]], \<lparr>content = [[0, 0], [0, 0]], content_as_matrix = Some [[0, 0], [0, 0]]\<rparr>) \<and>
   aes_load (list_base disk_one) stored ''dir'' ''file'' =
     Inr \<lparr>content = [[5, 6], [7, 8]], content_as_matrix = Some [[5, 6], [7, 8]]\<rparr> \<and>
   coherent (list_base disk_one) stored \<and>
   perform_all (list_base disk_one) stored
     [AsMatrix_call, SetItem 0 [1, 2], AsMatrix_call, Load ''dir'' ''file'', SetItem 1 [3, 4]] =
     Inr \<lparr>content = [[5, 6], [3, 4]], content_as_matrix = None\<rparr> \<and>
   coherent (list_base disk_one) \<lparr>content = [[5, 6], [3, 4]], content_as_matrix = None\<rparr> \<and>
   fst (as_matrix (list_base disk_one) \<lparr>content = [[5, 6], [3, 4]], content_as_matrix = None\<rparr>) =
     [[5, 6], [3, 4]]"
proof -
  let ?B = "list_base disk_one"
  let ?ops = "[AsMatrix_call, SetItem 0 [1, 2], AsMatrix_call, Load ''dir'' ''file'', SetItem 1 [3, 4]]"
  let ?s1 = "\<lparr>content = [[1, 2], [0, 0]], content_as_matrix = None :: real list list option\<rparr>"
  let ?s2 = "\<lparr>content = [[5, 6], [7, 8]], content_as_matrix = Some [[5, 6], [7, 8 :: real]]\<rparr>"
  let ?s3 = "\<lparr>content = [[5, 6], [3, 4]], content_as_matrix = None :: real list list option\<rparr>"
  note t = cache_protocol [where B = ?B and self = stored and key = 0 and item = "[1, 2]"
      and after_set = ?s1 and directory = "''dir''" and filename = "''file''" and after_load = ?s2
      and ops = ?ops and after_ops = ?s3]
  have a: "aes_setitem ?B stored 0 [1, 2] = Inr ?s1" by (simp add: storage_simps)
  have b: "content_as_matrix stored = None" by (simp add: storage_simps)
  have c: "aes_load ?B stored ''dir'' ''file'' = Inr ?s2" by (simp add: storage_simps)
  have d: "coherent ?B stored" by (simp add: storage_simps)
  have e: "perform_all ?B stored ?ops = Inr ?s3" by (simp add: storage_simps)
  from t b have f: "as_matrix ?B stored =
     (AsMatrix ?B (content stored), stored\<lparr>content_as_matrix := Some (AsMatrix ?B (content stored))\<rparr>)"
    by blast
  have g: "as_matrix ?B stored =
     ([[0, 0], [0, 0]], \<lparr>content = [[0, 0], [0, 0]], content_as_matrix = Some [[0, 0], [0, 0]]\<rparr>)"
    unfolding f by (simp add: storage_simps)
  from t d e have h: "coherent ?B ?s3 \<and> fst (as_matrix ?B ?s3) = AsMatrix ?B (content ?s3)"
    by blast
  then have i: "coherent ?B ?s3" by (rule conjunct1)
  from h have j: "fst (as_matrix ?B ?s3) = [[5, 6], [3, 4]]" by (simp add: list_base_def)
  from a b g c d e i j show ?thesis by (intro conjI)
qed

subsection \<open>The saved files\<close>

text \<open>
  C8.  When the eigenvalue and retained-energy sequences have at least as many entries
  as there are snapshots, \<open>N\<close>, each of the two methods writes on the I/O process a file
  of exactly \<open>N\<close> lines, line \<open>i\<close> being the index \<open>i\<close>, a space, the \<open>i\<close>-th value and a
  line feed, for \<open>i\<close> from \<open>0\<close> to \<open>N - 1\<close> in increasing order.  A participant that is not
  the I/O process writes nothing.  Every participant enters the barrier once before the
  method returns.
\<close>

theorem saved_files:
  assumes ev: "length (snapshots_matrix self) \<le> length (eigenvalues self)"
    and re: "length (snapshots_matrix self) \<le> length (retained_energy self)"
  shows "save_eigenvalues_file str_float True self w output_directory eigenvalues_file =
           Inr (w\<lparr>files := (files w)(output_directory @ ''/'' @ eigenvalues_file \<mapsto>
                        map (\<lambda>i. str_nat i @ '' '' @ str_float (eigenvalues self ! i) @ [CHR 0x0A])
                          [0..<length (snapshots_matrix self)]),
                   barriers := barriers w + 1\<rparr>) \<and>
         save_retained_energy_file str_float True self w output_directory retained_energy_file =
           Inr (w\<lparr>files := (files w)(output_directory @ ''/'' @ retained_energy_file \<mapsto>
                        map (\<lambda>i. str_nat i @ '' '' @ str_float (retained_energy self ! i) @ [CHR 0x0A])
                          [0..<length (snapshots_matrix self)]),
                   barriers := barriers w + 1\<rparr>) \<and>
         save_eigenvalues_file str_float False self w output_directory eigenvalues_file =
           Inr (w\<lparr>barriers := barriers w + 1\<rparr>) \<and>
         save_retained_energy_file str_float False self w output_directory retained_energy_file =
           Inr (w\<lparr>barriers := barriers w + 1\<rparr>)"
proof (intro conjI)
  show "save_eigenvalues_file str_float True self w output_directory eigenvalues_file =
           Inr (w\<lparr>files := (files w)(output_directory @ ''/'' @ eigenvalues_file \<mapsto>
                        map (\<lambda>i. str_nat i @ '' '' @ str_float (eigenvalues self ! i) @ [CHR 0x0A])
                          [0..<length (snapshots_matrix self)]),
                   barriers := barriers w + 1\<rparr>)"
    by (simp add: save_eigenvalues_file_def Let_def write_lines_range [OF ev] line_def)
next
  show "save_retained_energy_file str_float True self w output_directory retained_energy_file =
           Inr (w\<lparr>files := (files w)(output_directory @ ''/'' @ retained_energy_file \<mapsto>
                        map (\<lambda>i. str_nat i @ '' '' @ str_float (retained_energy self ! i) @ [CHR 0x0A])
                          [0..<length (snapshots_matrix self)]),
                   barriers := barriers w + 1\<rparr>)"
    by (simp add: save_retained_energy_file_def Let_def write_lines_range [OF re] line_def)
next
  show "save_eigenvalues_file str_float False self w output_directory eigenvalues_file =
           Inr (w\<lparr>barriers := barriers w + 1\<rparr>)"
    by (simp add: save_eigenvalues_file_def)
next
  show "save_retained_energy_file str_float False self w output_directory retained_energy_file =
           Inr (w\<lparr>barriers := barriers w + 1\<rparr>)"
    by (simp add: save_retained_energy_file_def)
qed

theorem saved_files_witness:
  "length (snapshots_matrix two_snapshots_applied) \<le> length (eigenvalues two_snapshots_applied) \<and>
   length (snapshots_matrix two_snapshots_applied) \<le> length (retained_energy two_snapshots_applied) \<and>
   save_eigenvalues_file str_small True two_snapshots_applied empty_world ''out'' ''eigenvalues.txt'' =
     Inr \<lparr>files = [''out/eigenvalues.txt'' \<mapsto> [''0 1.0'' @ [CHR 0x0A], ''1 1.0'' @ [CHR 0x0A]]],
          barriers = 1\<rparr> \<and>
   save_retained_energy_file str_small True two_snapshots_applied empty_world ''out'' ''energy.txt'' =
     Inr \<lparr>files = [''out/energy.txt'' \<mapsto> [''0 0.5'' @ [CHR 0x0A], ''1 1.0'' @ [CHR 0x0A]]],
          barriers = 1\<rparr> \<and>
   save_eigenvalues_file str_small False two_snapshots_applied empty_world ''out'' ''eigenvalues.txt'' =
     Inr \<lparr>files = Map.empty, barriers = 1\<rparr>"
proof -
  have a: "length (snapshots_matrix two_snapshots_applied) \<le> length (eigenvalues two_snapshots_applied)"
    by (simp add: engine_simps)
  have b: "length (snapshots_matrix two_snapshots_applied) \<le> length (retained_energy two_snapshots_applied)"
    by (simp add: engine_simps)
  note t = saved_files [OF a b, of str_small empty_world "''out''"]
  have c: "save_eigenvalues_file str_small True two_snapshots_applied empty_world ''out'' ''eigenvalues.txt'' =
     Inr \<lparr>files = [''out/eigenvalues.txt'' \<mapsto> [''0 1.0'' @ [CHR 0x0A], ''1 1.0'' @ [CHR 0x0A]]],
          barriers = 1\<rparr>"
    using t [of "''eigenvalues.txt''" "''energy.txt''"]
    by (simp add: engine_simps save_simps upt_rec)
  have d: "save_retained_energy_file str_small True two_snapshots_applied empty_world ''out'' ''energy.txt'' =
     Inr \<lparr>files = [''out/energy.txt'' \<mapsto> [''0 0.5'' @ [CHR 0x0A], ''1 1.0'' @ [CHR 0x0A]]],
          barriers = 1\<rparr>"
    using t [of "''eigenvalues.txt''" "''energy.txt''"]
    by (simp add: engine_simps save_simps upt_rec)
  have e: "save_eigenvalues_file str_small False two_snapshots_applied empty_world ''out'' ''eigenvalues.txt'' =
     Inr \<lparr>files = Map.empty, barriers = 1\<rparr>"
    using t [of "''eigenvalues.txt''" "''energy.txt''"]
    by (simp add: save_simps)
  from a b c d e show ?thesis by (intro conjI)
qed

subsection \<open>Saving before \<open>apply\<close> has run\<close>

text \<open>
  C10.  The two methods run their loop over the number of snapshots, not over the
  length of the sequence they write.  When the sequence is shorter than the number of
  snapshots, as it is when snapshots were stored and \<open>apply\<close> has not run since, the
  loop of the I/O process fails with the out-of-range index error at the first index
  past the sequence: the file holds only the lines written so far, and the method is
  left before the barrier.
\<close>

theorem save_before_apply:
  shows "(length (eigenvalues self) < length (snapshots_matrix self) \<longrightarrow>
            save_eigenvalues_file str_float True self w output_directory eigenvalues_file =
              Inl (IndexError,
                   w\<lparr>files := (files w)(output_directory @ ''/'' @ eigenvalues_file \<mapsto>
                        map (\<lambda>i. line str_float i (eigenvalues self ! i))
                          [0..<length (eigenvalues self)])\<rparr>)) \<and>
         (length (retained_energy self) < length (snapshots_matrix self) \<longrightarrow>
            save_retained_energy_file str_float True self w output_directory retained_energy_file =
              Inl (IndexError,
                   w\<lparr>files := (files w)(output_directory @ ''/'' @ retained_energy_file \<mapsto>
                        map (\<lambda>i. line str_float i (retained_energy self ! i))
                          [0..<length (retained_energy self)])\<rparr>))"
  by (simp add: save_eigenvalues_file_def save_retained_energy_file_def Let_def write_lines_short)

theorem save_before_apply_witness:
  "length (eigenvalues two_snapshots) < length (snapshots_matrix two_snapshots) \<and>
   save_eigenvalues_file str_small True two_snapshots empty_world ''out'' ''eigenvalues.txt'' =
     Inl (IndexError, \<lparr>files = [''out/eigenvalues.txt'' \<mapsto> []], barriers = 0\<rparr>) \<and>
   length (retained_energy three_snapshots) < length (snapshots_matrix three_snapshots) \<and>
   save_retained_energy_file str_small True three_snapshots empty_world ''out'' ''energy.txt'' =
     Inl (IndexError,
          \<lparr>files = [''out/energy.txt'' \<mapsto> [''0 0.5'' @ [CHR 0x0A], ''1 1.0'' @ [CHR 0x0A]]],
           barriers = 0\<rparr>)"
proof -
  have a: "length (eigenvalues two_snapshots) < length (snapshots_matrix two_snapshots)"
    by (simp add: engine_simps)
  have b: "length (retained_energy three_snapshots) < length (snapshots_matrix three_snapshots)"
    by (simp add: engine_simps save_simps)
  have c: "save_eigenvalues_file str_small True two_snapshots empty_world ''out'' ''eigenvalues.txt'' =
     Inl (IndexError, \<lparr>files = [''out/eigenvalues.txt'' \<mapsto> []], barriers = 0\<rparr>)"
    using a save_before_apply [of two_snapshots str_small empty_world "''out''" "''eigenvalues.txt''" "''energy.txt''"]
    by (simp add: engine_simps save_simps)
  have d: "save_retained_energy_file str_small True three_snapshots empty_world ''out'' ''energy.txt'' =
     Inl (IndexError,
          \<lparr>files = [''out/energy.txt'' \<mapsto> [''0 0.5'' @ [CHR 0x0A], ''1 1.0'' @ [CHR 0x0A]]],
           barriers = 0\<rparr>)"
    using b save_before_apply [of three_snapshots str_small empty_world "''out''" "''eigenvalues.txt''" "''energy.txt''"]
    by (simp add: engine_simps save_simps line_def upt_rec)
  from a c b d show ?thesis by (intro conjI)
qed

end
